theory Spec2Isabelle
  imports Complex_Main
begin

section \<open>Characters and regular expressions of the analyzers\<close>

text \<open>
  Strings are lists of 8-bit characters; the development covers ASCII text. The
  JavaScript class \<open>\w\<close> is \<open>[A-Za-z0-9_]\<close>, \<open>\d\<close> is \<open>[0-9]\<close>, and
  \<open>toLowerCase\<close> maps \<open>A-Z\<close> to \<open>a-z\<close>.
\<close>

definition isUpper :: "char \<Rightarrow> bool" where
  "isUpper c = (65 \<le> (of_char c :: nat) \<and> (of_char c :: nat) \<le> 90)"

definition isLower :: "char \<Rightarrow> bool" where
  "isLower c = (97 \<le> (of_char c :: nat) \<and> (of_char c :: nat) \<le> 122)"

definition isDigit :: "char \<Rightarrow> bool" where
  "isDigit c = (48 \<le> (of_char c :: nat) \<and> (of_char c :: nat) \<le> 57)"

definition isWordChar :: "char \<Rightarrow> bool" where
  "isWordChar c = (isUpper c \<or> isLower c \<or> isDigit c \<or> c = CHR ''_'')"

definition lowerChar :: "char \<Rightarrow> char" where
  "lowerChar c = (if isUpper c then char_of ((of_char c :: nat) + 32) else c)"

definition toLowerCase :: "string \<Rightarrow> string" where
  "toLowerCase s = map lowerChar s"

text \<open>
  The patterns of \<open>errorPatterns\<close> are alternations of sequences of literal
  characters and \<open>\d\<close>, all with the flag \<open>i\<close>. \<open>RegExp.test\<close> holds when some
  alternative matches at some position of the message.
\<close>

datatype atom = Lit char | AnyDigit

type_synonym regex = "atom list list"

fun atomMatches :: "atom \<Rightarrow> char \<Rightarrow> bool" where
  "atomMatches (Lit p) c = (lowerChar p = lowerChar c)"
| "atomMatches AnyDigit c = isDigit c"

fun matchHere :: "atom list \<Rightarrow> string \<Rightarrow> bool" where
  "matchHere [] s = True"
| "matchHere (a # as) [] = False"
| "matchHere (a # as) (c # cs) = (atomMatches a c \<and> matchHere as cs)"

fun regexTest :: "regex \<Rightarrow> string \<Rightarrow> bool" where
  "regexTest r [] = list_ex (\<lambda>p. matchHere p []) r"
| "regexTest r (c # cs) = (list_ex (\<lambda>p. matchHere p (c # cs)) r \<or> regexTest r cs)"

definition lit :: "string \<Rightarrow> atom list" where
  "lit s = map Lit s"

section \<open>LogAnalyzer (src/utils/logAnalyzer.js)\<close>

datatype errorType = Timeout | Memory | Database | Api | Security | Other

definition timeoutPattern :: regex where
  "timeoutPattern = [lit ''timeout'', lit ''timed out'']"

definition memoryPattern :: regex where
  "memoryPattern = [lit ''out of memory'', lit ''memory limit'']"

definition databasePattern :: regex where
  "databasePattern = [lit ''database error'', lit ''connection refused'', lit ''deadlock'']"

definition apiPattern :: regex where
  "apiPattern = [lit ''api error'', lit ''rate limit'', lit ''429'',
                 [Lit CHR ''5'', AnyDigit, AnyDigit]]"

definition securityPattern :: regex where
  "securityPattern = [lit ''unauthorized'', lit ''forbidden'', lit ''invalid token'']"

text \<open>\<open>Object.entries(this.errorPatterns)\<close>: the keys in the order the literal writes them.\<close>

definition errorPatterns :: "(errorType \<times> regex) list" where
  "errorPatterns =
     [(Timeout, timeoutPattern), (Memory, memoryPattern), (Database, databasePattern),
      (Api, apiPattern), (Security, securityPattern)]"

definition thresholdRequest :: int where "thresholdRequest = 2000"
definition thresholdQuery :: int where "thresholdQuery = 1000"
definition thresholdMemory :: int where "thresholdMemory = 500"
definition thresholdCpu :: int where "thresholdCpu = 80"

text \<open>
  What \<open>new Date(v)\<close> is for a timestamp \<open>v\<close>: a date, given by its
  milliseconds, or \<open>Invalid Date\<close>, whose time value is \<open>NaN\<close>, when \<open>v\<close> does
  not parse.
\<close>

datatype jsdate = ValidDate int | InvalidDate

text \<open>
  A parsed log entry. An absent field is \<open>None\<close>, and so is a timestamp that is
  not truthy; a truthy timestamp is given by the date that \<open>new Date\<close> makes of
  it.
\<close>

record logEntry =
  level :: string
  message :: string
  path :: "string option"
  timestamp :: "jsdate option"
  duration :: "int option"
  entryType :: "string option"
  query :: "string option"
  heapUsed :: "int option"
  cpuUsage :: "int option"

record slowRequest =
  srPath :: "string option"
  srDuration :: int
  srTimestamp :: "jsdate option"

record slowQuery =
  sqQuery :: "string option"
  sqDuration :: int
  sqTimestamp :: "jsdate option"

record resourceSample =
  amount :: int
  sampleTimestamp :: "jsdate option"

record results =
  errors :: "errorType \<Rightarrow> nat"
  slowRequests :: "slowRequest list"
  slowQueries :: "slowQuery list"
  highMemory :: "resourceSample list"
  highCpu :: "resourceSample list"
  commonErrors :: "(string \<times> nat) list"
  frequentEndpoints :: "(string \<times> nat) list"
  errorTimes :: "jsdate list"
  errorClusters :: "jsdate list list"

definition emptyResults :: results where
  "emptyResults =
     \<lparr>errors = (\<lambda>_. 0), slowRequests = [], slowQueries = [], highMemory = [], highCpu = [],
      commonErrors = [], frequentEndpoints = [], errorTimes = [], errorClusters = []\<rparr>"

text \<open>The loop over the patterns, leaving at the first one that matches.\<close>

fun firstMatch :: "(errorType \<times> regex) list \<Rightarrow> string \<Rightarrow> errorType" where
  "firstMatch [] msg = Other"
| "firstMatch ((ty, pattern) # rest) msg =
     (if regexTest pattern msg then ty else firstMatch rest msg)"

definition classify :: "string \<Rightarrow> errorType" where
  "classify msg = firstMatch errorPatterns msg"

text \<open>\<open>map.set(k, (map.get(k) || 0) + 1)\<close> on an insertion-ordered \<open>Map\<close>.\<close>

fun increment :: "string \<Rightarrow> (string \<times> nat) list \<Rightarrow> (string \<times> nat) list" where
  "increment k [] = [(k, 1)]"
| "increment k ((k', n) # m) = (if k = k' then (k', n + 1) # m else (k', n) # increment k m)"

definition truthy :: "string option \<Rightarrow> bool" where
  "truthy s = (case s of None \<Rightarrow> False | Some v \<Rightarrow> v \<noteq> [])"

definition errorKey :: "logEntry \<Rightarrow> string" where
  "errorKey e = (if truthy (path e) then the (path e) else ''unknown'') @ '': '' @ message e"

definition trackError :: "logEntry \<Rightarrow> results \<Rightarrow> results" where
  "trackError e r =
     (if level e = ''error'' then
        r\<lparr>errors := (errors r)(classify (message e) := errors r (classify (message e)) + 1),
          commonErrors := increment (errorKey e) (commonErrors r),
          errorTimes := (case timestamp e of None \<Rightarrow> errorTimes r
                         | Some t \<Rightarrow> errorTimes r @ [t])\<rparr>
      else r)"

definition trackPerformance :: "logEntry \<Rightarrow> results \<Rightarrow> results" where
  "trackPerformance e r =
     (case duration e of
        None \<Rightarrow> r
      | Some d \<Rightarrow>
          if d = 0 then r
          else
            (let r1 = (if entryType e = Some ''request'' \<and> d > thresholdRequest
                       then r\<lparr>slowRequests := slowRequests r @
                              [\<lparr>srPath = path e, srDuration = d, srTimestamp = timestamp e\<rparr>]\<rparr>
                       else r)
             in if entryType e = Some ''query'' \<and> d > thresholdQuery
                then r1\<lparr>slowQueries := slowQueries r1 @
                        [\<lparr>sqQuery = query e, sqDuration = d, sqTimestamp = timestamp e\<rparr>]\<rparr>
                else r1))"

definition trackEndpoint :: "logEntry \<Rightarrow> results \<Rightarrow> results" where
  "trackEndpoint e r =
     (if truthy (path e)
      then r\<lparr>frequentEndpoints := increment (the (path e)) (frequentEndpoints r)\<rparr>
      else r)"

definition trackResources :: "logEntry \<Rightarrow> results \<Rightarrow> results" where
  "trackResources e r =
     (let r1 = (case heapUsed e of
                  None \<Rightarrow> r
                | Some h \<Rightarrow>
                    if h > thresholdMemory * 1024 * 1024
                    then r\<lparr>highMemory := highMemory r @
                           [\<lparr>amount = h, sampleTimestamp = timestamp e\<rparr>]\<rparr>
                    else r)
      in case cpuUsage e of
           None \<Rightarrow> r1
         | Some u \<Rightarrow>
             if u > thresholdCpu
             then r1\<lparr>highCpu := highCpu r1 @ [\<lparr>amount = u, sampleTimestamp = timestamp e\<rparr>]\<rparr>
             else r1)"

definition analyzeLogEntry :: "logEntry \<Rightarrow> results \<Rightarrow> results" where
  "analyzeLogEntry e r = trackResources e (trackEndpoint e (trackPerformance e (trackError e r)))"

text \<open>
  \<open>a - b\<close> on two dates is the difference of their time values; it is \<open>NaN\<close>,
  here \<open>None\<close>, when one of them is invalid.
\<close>

fun timeDiff :: "jsdate \<Rightarrow> jsdate \<Rightarrow> int option" where
  "timeDiff (ValidDate a) (ValidDate b) = Some (a - b)"
| "timeDiff a b = None"

text \<open>
  \<open>errorTimes.sort((a, b) => a - b)\<close>. The sort reads a \<open>NaN\<close> from the
  comparator as \<open>+0\<close>, and it is stable; it is modelled as insertion sort. With
  an invalid date among different valid ones the comparator is not consistent, and
  the order the sort leaves is then implementation-defined.
\<close>

definition compareTimes :: "jsdate \<Rightarrow> jsdate \<Rightarrow> int" where
  "compareTimes a b = (case timeDiff a b of None \<Rightarrow> 0 | Some d \<Rightarrow> d)"

fun insertTime :: "jsdate \<Rightarrow> jsdate list \<Rightarrow> jsdate list" where
  "insertTime x [] = [x]"
| "insertTime x (y # ys) =
     (if compareTimes x y \<le> 0 then x # y # ys else y # insertTime x ys)"

definition sortTimes :: "jsdate list \<Rightarrow> jsdate list" where
  "sortTimes xs = foldr insertTime xs []"

text \<open>The test \<open>timeDiff <= 300000\<close>, which is false for \<open>NaN\<close>.\<close>

definition withinFiveMinutes :: "jsdate \<Rightarrow> jsdate \<Rightarrow> bool" where
  "withinFiveMinutes t lastError =
     (case timeDiff t lastError of None \<Rightarrow> False | Some d \<Rightarrow> d \<le> 300000)"

text \<open>
  The loop of \<open>analyzePatterns\<close> over the sorted error times, with its two
  variables \<open>clusters\<close> and \<open>currentCluster\<close>. The loop ends without pushing
  the cluster it is building.
\<close>

fun clusterLoop :: "jsdate list \<Rightarrow> jsdate list list \<Rightarrow> jsdate list \<Rightarrow> jsdate list list" where
  "clusterLoop [] clusters currentCluster = clusters"
| "clusterLoop (t # ts) clusters currentCluster =
     (if length currentCluster = 0 then clusterLoop ts clusters [t]
      else if withinFiveMinutes t (last currentCluster)
        then clusterLoop ts clusters (currentCluster @ [t])
      else clusterLoop ts
             (if length currentCluster > 1 then clusters @ [currentCluster] else clusters) [t])"

definition analyzePatterns :: "results \<Rightarrow> results" where
  "analyzePatterns r =
     r\<lparr>errorTimes := sortTimes (errorTimes r),
       errorClusters := clusterLoop (sortTimes (errorTimes r)) [] []\<rparr>"

record recommendation =
  category :: string
  priority :: string
  issues :: "string list"

definition generateRecommendations :: "results \<Rightarrow> recommendation list" where
  "generateRecommendations r =
     (if errors r Database > 0 then
        [\<lparr>category = ''Database'', priority = ''High'',
          issues = [''Frequent database connection errors detected'',
                    ''Consider implementing connection pooling'',
                    ''Add retry logic for failed queries'',
                    ''Monitor connection pool metrics'']\<rparr>] else []) @
     (if length (slowRequests r) > 0 then
        [\<lparr>category = ''Performance'', priority = ''Medium'',
          issues = [''Multiple slow requests detected'',
                    ''Implement request caching'',
                    ''Add database query optimization'',
                    ''Consider implementing pagination'']\<rparr>] else []) @
     (if length (highMemory r) > 0 then
        [\<lparr>category = ''Memory'', priority = ''High'',
          issues = [''High memory usage detected'',
                    ''Implement memory leak detection'',
                    ''Add garbage collection monitoring'',
                    ''Review large object allocations'']\<rparr>] else []) @
     (if errors r Api > 0 then
        [\<lparr>category = ''API'', priority = ''Medium'',
          issues = [''Frequent API errors detected'',
                    ''Implement rate limiting'',
                    ''Add request validation'',
                    ''Improve error handling'']\<rparr>] else []) @
     (if errors r Security > 0 then
        [\<lparr>category = ''Security'', priority = ''High'',
          issues = [''Security-related errors detected'',
                    ''Review authentication logic'',
                    ''Implement request sanitization'',
                    ''Add security headers'']\<rparr>] else [])"

text \<open>
  \<open>analyzeLogs\<close> on the entries parsed from the log files: every entry is
  analysed in turn, then the patterns; the report holds the details and the
  recommendations.
\<close>

definition analyzeEntries :: "logEntry list \<Rightarrow> results" where
  "analyzeEntries es = analyzePatterns (foldl (\<lambda>r e. analyzeLogEntry e r) emptyResults es)"

definition analyzeLogs :: "logEntry list \<Rightarrow> results \<times> recommendation list" where
  "analyzeLogs es = (analyzeEntries es, generateRecommendations (analyzeEntries es))"

section \<open>Numbers\<close>

text \<open>
  A JavaScript number is an IEEE 754 double. A finite double is modelled by the
  rational it stands for, and an operation by the exact operation followed by
  \<open>roundToDouble\<close>, which rounds to the nearest double, a tie going to the even
  significand: 53 bits of significand, exponents from \<open>-1022\<close> to \<open>1023\<close>, the
  subnormal numbers in steps of \<open>2 powi (-1074)\<close>. The overflow to \<open>Infinity\<close>
  is not modelled; the sums and quotients below stay far from it.
\<close>

definition roundEven :: "rat \<Rightarrow> int" where
  "roundEven x =
     (let f = \<lfloor>x\<rfloor>; d = x - of_int f
      in if d < 1 / 2 then f else if 1 / 2 < d then f + 1 else if even f then f else f + 1)"

text \<open>The largest exponent \<open>e\<close>, from \<open>e\<close> down over \<open>k\<close> steps, with \<open>2 powi e \<le> x\<close>.\<close>

fun findExponent :: "nat \<Rightarrow> int \<Rightarrow> rat \<Rightarrow> int" where
  "findExponent 0 e x = e"
| "findExponent (Suc k) e x = (if 2 powi e \<le> x then e else findExponent k (e - 1) x)"

definition exponentOf :: "rat \<Rightarrow> int" where
  "exponentOf x = findExponent 2045 1023 \<bar>x\<bar>"

definition roundToDouble :: "rat \<Rightarrow> rat" where
  "roundToDouble x =
     (let u = 2 powi (exponentOf x - 52) in of_int (roundEven (x / u)) * u)"

text \<open>The double that a decimal literal denotes, and the sum and quotient of doubles.\<close>

definition number :: "rat \<Rightarrow> rat" where
  "number d = roundToDouble d"

definition jsAdd :: "rat \<Rightarrow> rat \<Rightarrow> rat" where
  "jsAdd a b = roundToDouble (a + b)"

definition jsDiv :: "rat \<Rightarrow> rat \<Rightarrow> rat" where
  "jsDiv a b = roundToDouble (a / b)"

text \<open>
  \<open>x.toFixed(2)\<close> prints the decimal \<open>n / 100\<close> for the integer \<open>n\<close> for which
  \<open>n / 100\<close> is nearest to the exact value of the double \<open>x\<close>, the larger \<open>n\<close> at
  a tie, after taking the sign off. \<open>toFixed2 x\<close> is the decimal printed;
  \<open>parseFloat\<close> reads it as the double \<open>number (toFixed2 x)\<close>, which prints as
  that decimal again. A score is kept as its decimal and enters arithmetic through
  \<open>number\<close>.
\<close>

definition toFixed2 :: "rat \<Rightarrow> rat" where
  "toFixed2 x =
     (if x < 0 then - (of_int \<lfloor>(- x) * 100 + 1 / 2\<rfloor> / 100)
      else of_int \<lfloor>x * 100 + 1 / 2\<rfloor> / 100)"

text \<open>
  The quotient of two counts: a zero divisor gives \<open>NaN\<close> for \<open>0 / 0\<close> and
  \<open>Infinity\<close> otherwise.
\<close>

datatype jsnumber = Finite rat | PosInfinity | NaN

definition jsDivide :: "nat \<Rightarrow> nat \<Rightarrow> jsnumber" where
  "jsDivide a b =
     (if b = 0 then (if a = 0 then NaN else PosInfinity)
      else Finite (jsDiv (of_nat a) (of_nat b)))"

section \<open>String operations\<close>

text \<open>
  \<open>s.split(re)\<close> for a pattern \<open>[...]+\<close>: every maximal run of separator
  characters ends one piece and starts the next, so a separator at either end
  of \<open>s\<close> leaves an empty piece there, and the empty string gives one empty
  piece.
\<close>

fun splitOn :: "(char \<Rightarrow> bool) \<Rightarrow> string \<Rightarrow> string list" where
  "splitOn sep [] = [[]]"
| "splitOn sep (c # cs) =
     (if sep c then (if cs \<noteq> [] \<and> sep (hd cs) then splitOn sep cs else [] # splitOn sep cs)
      else (case splitOn sep cs of [] \<Rightarrow> [[c]] | w # ws \<Rightarrow> (c # w) # ws))"

definition isNonWord :: "char \<Rightarrow> bool" where
  "isNonWord c = (\<not> isWordChar c)"

definition isSentenceEnd :: "char \<Rightarrow> bool" where
  "isSentenceEnd c = (c = CHR ''.'' \<or> c = CHR ''!'' \<or> c = CHR ''?'')"

definition isSpace :: "char \<Rightarrow> bool" where
  "isSpace c = (c = CHR '' '' \<or> (9 \<le> (of_char c :: nat) \<and> (of_char c :: nat) \<le> 13))"

definition trim :: "string \<Rightarrow> string" where
  "trim s = rev (dropWhile isSpace (rev (dropWhile isSpace s)))"

fun join :: "string \<Rightarrow> string list \<Rightarrow> string" where
  "join sep [] = []"
| "join sep [s] = s"
| "join sep (s # t # ss) = s @ sep @ join sep (t # ss)"

section \<open>Sentiment analysis (src/utils/sentimentAnalysis.js)\<close>

definition POSITIVE_KEYWORDS :: "(string \<times> rat) list" where
  "POSITIVE_KEYWORDS =
     [(''excellent'', 1), (''amazing'', 1), (''great'', 8 / 10), (''good'', 5 / 10),
      (''nice'', 5 / 10), (''decent'', 3 / 10), (''friendly'', 6 / 10), (''clean'', 4 / 10),
      (''recommend'', 7 / 10), (''delicious'', 8 / 10), (''fantastic'', 9 / 10),
      (''helpful'', 6 / 10), (''professional'', 7 / 10)]"

definition NEGATIVE_KEYWORDS :: "(string \<times> rat) list" where
  "NEGATIVE_KEYWORDS =
     [(''terrible'', - 1), (''horrible'', - 1), (''bad'', - (7 / 10)), (''poor'', - (6 / 10)),
      (''dirty'', - (6 / 10)), (''rude'', - (8 / 10)), (''slow'', - (4 / 10)),
      (''expensive'', - (5 / 10)), (''disappointing'', - (7 / 10)), (''awful'', - (9 / 10)),
      (''mediocre'', - (4 / 10)), (''unprofessional'', - (7 / 10))]"

record sentiment =
  score :: rat
  matchedWords :: "(string \<times> rat) list"
  confidence :: rat

text \<open>The loop over the words, with its variables \<open>totalScore\<close> and \<open>matchedWords\<close>.\<close>

fun scoreWords :: "string list \<Rightarrow> rat \<Rightarrow> (string \<times> rat) list \<Rightarrow> rat \<times> (string \<times> rat) list" where
  "scoreWords [] totalScore matched = (totalScore, matched)"
| "scoreWords (w # ws) totalScore matched =
     (case map_of POSITIVE_KEYWORDS w of
        Some v \<Rightarrow> scoreWords ws (jsAdd totalScore (number v)) (matched @ [(w, number v)])
      | None \<Rightarrow>
          (case map_of NEGATIVE_KEYWORDS w of
             Some v \<Rightarrow>
               scoreWords ws (jsAdd totalScore (number v)) (matched @ [(w, number v)])
           | None \<Rightarrow> scoreWords ws totalScore matched))"

definition analyzeSentiment :: "string \<Rightarrow> sentiment" where
  "analyzeSentiment txt =
     (let wordList = splitOn isNonWord (toLowerCase txt);
          (totalScore, matched) = scoreWords wordList 0 [];
          normalizedScore =
            (if length matched > 0 then jsDiv totalScore (of_nat (max (length matched) 1))
             else 0)
      in \<lparr>score = toFixed2 normalizedScore, matchedWords = matched,
          confidence = min (jsDiv (of_nat (length matched)) 3) 1\<rparr>)"

text \<open>
  The words of the claim about the scorer: the tokens that one of the two tables
  knows, the weight of such a token, the sum of weights in the order of the text,
  and the sum of the matched weights divided by their number.
\<close>

definition isKeyword :: "string \<Rightarrow> bool" where
  "isKeyword w = (map_of (POSITIVE_KEYWORDS @ NEGATIVE_KEYWORDS) w \<noteq> None)"

definition keywordWeight :: "string \<Rightarrow> rat" where
  "keywordWeight w = the (map_of (POSITIVE_KEYWORDS @ NEGATIVE_KEYWORDS) w)"

definition matchedTokens :: "string \<Rightarrow> string list" where
  "matchedTokens txt = filter isKeyword (splitOn isNonWord (toLowerCase txt))"

definition jsSum :: "rat list \<Rightarrow> rat" where
  "jsSum xs = foldl jsAdd 0 xs"

definition meanWeight :: "string \<Rightarrow> rat" where
  "meanWeight txt =
     (if matchedTokens txt = [] then 0
      else jsDiv (jsSum (map (\<lambda>w. number (keywordWeight w)) (matchedTokens txt)))
             (of_nat (length (matchedTokens txt))))"

section \<open>Aspect analysis (analyzeAspects, generateAspectSummary)\<close>

definition ASPECT_KEYWORDS :: "(string \<times> string list) list" where
  "ASPECT_KEYWORDS =
     [(''service'',
         [''service'', ''staff'', ''waiter'', ''waitress'', ''server'', ''host'',
          ''hostess'', ''employee'', ''attention'', ''responsive'', ''quick'',
          ''slow'', ''friendly'', ''rude'', ''helpful'', ''attentive'']),
      (''food'',
         [''food'', ''dish'', ''meal'', ''taste'', ''flavor'', ''delicious'',
          ''portion'', ''menu'', ''cuisine'', ''appetizer'', ''entree'',
          ''dessert'', ''drink'', ''beverage'', ''fresh'', ''stale'']),
      (''pricing'',
         [''price'', ''value'', ''expensive'', ''cheap'', ''affordable'',
          ''overpriced'', ''cost'', ''worth'', ''deal'', ''bargain'',
          ''pricey'', ''reasonable'', ''fair'', ''money'']),
      (''ambiance'',
         [''ambiance'', ''atmosphere'', ''decor'', ''music'', ''noise'',
          ''lighting'', ''comfortable'', ''clean'', ''dirty'', ''cozy'',
          ''crowded'', ''quiet'', ''romantic'', ''space'', ''interior'']),
      (''location'',
         [''location'', ''parking'', ''accessible'', ''neighborhood'',
          ''area'', ''street'', ''downtown'', ''distance'', ''convenient'',
          ''nearby'', ''far'', ''close''])]"

record aspectData =
  sentences :: "string list"
  matchedKeywords :: "string list"
  sentimentScore :: rat
  mentionCount :: nat

record aspectResult =
  aspectScore :: rat
  aspectConfidence :: rat
  mentions :: nat
  aspectKeywords :: "string list"
  relevantText :: "string list"

record dominantAspect =
  aspect :: string
  dominantMentions :: nat
  dominantScore :: rat

record aspectSummary =
  overallScore :: rat
  dominantAspects :: "dominantAspect list"

text \<open>\<open>Set.add\<close>: a set keeps its members in the order they were first added.\<close>

definition setAdd :: "string \<Rightarrow> string list \<Rightarrow> string list" where
  "setAdd x xs = (if List.member xs x then xs else xs @ [x])"

definition initialAspects :: "(string \<times> aspectData) list" where
  "initialAspects =
     map (\<lambda>(a, ks). (a, \<lparr>sentences = [], matchedKeywords = [], sentimentScore = 0,
                           mentionCount = 0\<rparr>)) ASPECT_KEYWORDS"

definition keywordsOf :: "string \<Rightarrow> string list" where
  "keywordsOf a = (case map_of ASPECT_KEYWORDS a of None \<Rightarrow> [] | Some ks \<Rightarrow> ks)"

text \<open>One sentence against one aspect: the body of the inner loop.\<close>

definition categorize :: "string \<Rightarrow> string list \<Rightarrow> aspectData \<Rightarrow> aspectData" where
  "categorize sentence ks d =
     (let wordList = splitOn isNonWord sentence;
          matches = filter (\<lambda>k. List.member wordList k) ks
      in if length matches > 0
         then d\<lparr>sentences := sentences d @ [sentence],
                matchedKeywords := foldl (\<lambda>s m. setAdd m s) (matchedKeywords d) matches,
                mentionCount := mentionCount d + 1\<rparr>
         else d)"

definition categorizeSentence ::
  "string \<Rightarrow> (string \<times> aspectData) list \<Rightarrow> (string \<times> aspectData) list" where
  "categorizeSentence sentence rs = map (\<lambda>(a, d). (a, categorize sentence (keywordsOf a) d)) rs"

definition splitSentences :: "string \<Rightarrow> string list" where
  "splitSentences reviewText =
     filter (\<lambda>s. length s > 0) (map trim (splitOn isSentenceEnd (toLowerCase reviewText)))"

definition aspectResults :: "string \<Rightarrow> (string \<times> aspectData) list" where
  "aspectResults reviewText =
     foldl (\<lambda>rs sentence. categorizeSentence sentence rs) initialAspects
       (splitSentences reviewText)"

definition aspectSentiment :: "aspectData \<Rightarrow> aspectResult" where
  "aspectSentiment d =
     (let sentimentAnalysis = analyzeSentiment (join ''. '' (sentences d))
      in \<lparr>aspectScore = score sentimentAnalysis,
          aspectConfidence = confidence sentimentAnalysis,
          mentions = mentionCount d,
          aspectKeywords = matchedKeywords d,
          relevantText = sentences d\<rparr>)"

definition generateAspectSummary :: "(string \<times> aspectResult) list \<Rightarrow> aspectSummary option" where
  "generateAspectSummary rs =
     (if length rs = 0 then None
      else Some
        \<lparr>overallScore =
            toFixed2 (jsDiv (foldl (\<lambda>s (a, d). jsAdd s (number (aspectScore d))) 0 rs)
                        (of_nat (length rs))),
         dominantAspects =
            map (\<lambda>(a, d). \<lparr>aspect = a, dominantMentions = mentions d,
                            dominantScore = aspectScore d\<rparr>)
              (take 2 (sort_key (\<lambda>(a, d). - int (mentions d)) rs))\<rparr>)"

definition analyzeAspects ::
  "string \<Rightarrow> (string \<times> aspectResult) list \<times> aspectSummary option" where
  "analyzeAspects reviewText =
     (let rs = map (\<lambda>(a, d). (a, aspectSentiment d))
                 (filter (\<lambda>(a, d). length (sentences d) > 0) (aspectResults reviewText))
      in (rs, generateAspectSummary rs))"

definition aspectScoreOf :: "string \<Rightarrow> string \<Rightarrow> rat option" where
  "aspectScoreOf reviewText a = map_option aspectScore (map_of (fst (analyzeAspects reviewText)) a)"

section \<open>FeedbackAnalyzer (src/utils/sslConfig.js)\<close>

text \<open>
  The analyzer's fields that the methods below read. \<open>feedbackErrors\<close> is
  \<open>feedbackData.errors\<close>, each error by its \<open>severity\<close>; \<open>userFeedback\<close> is
  \<open>feedbackData.userFeedback\<close>, each feedback by the milliseconds of its
  \<open>timestamp\<close>; \<open>performanceData\<close> is \<open>feedbackData.performance\<close>, each
  item by its \<open>duration\<close>; \<open>patternErrors\<close> is the insertion-ordered map
  \<open>patterns.errors\<close>. Times are milliseconds; the reading of the clock
  (\<open>Date.now()\<close>, \<open>new Date()\<close>) is the argument \<open>now\<close>.
\<close>

record errorData =
  errorCount :: nat
  lastOccurrence :: int
  endpoints :: "string list"
  severity :: "string option"

record analyzer =
  feedbackErrors :: "string option list"
  userFeedback :: "int list"
  performanceData :: "int list"
  patternErrors :: "(string \<times> errorData) list"

definition errorFrequency :: nat where "errorFrequency = 5"

definition dayInMs :: int where "dayInMs = 24 * 60 * 60 * 1000"

text \<open>
  The three scores of \<open>calculatePriority\<close> and their weighted sum are modelled
  over the reals, with \<open>Math.exp\<close> as \<open>exp\<close>; the rounding of the doubles is
  not modelled for them.
\<close>

definition frequencyScore :: "errorData \<Rightarrow> real" where
  "frequencyScore d = min (real (errorCount d) / real errorFrequency) 1"

definition severityScore :: "errorData \<Rightarrow> real" where
  "severityScore d = (if severity d = Some ''critical'' then 1 else 1 / 2)"

definition recencyScore :: "int \<Rightarrow> errorData \<Rightarrow> real" where
  "recencyScore now d = exp (- (real_of_int (now - lastOccurrence d)) / real_of_int dayInMs)"

definition calculatePriority :: "int \<Rightarrow> errorData \<Rightarrow> real" where
  "calculatePriority now d =
     frequencyScore d * (4 / 10) + severityScore d * (4 / 10) + recencyScore now d * (2 / 10)"

record errorPattern =
  patternType :: string
  occurrences :: nat
  frequency :: jsnumber
  patternLast :: int
  affectedEndpoints :: "string list"
  patternPriority :: real

text \<open>
  The patterns are sorted by descending priority. Two patterns whose priorities
  differ by less than the precision of a double are equal for the sort of the
  code and keep their order of insertion; the model orders them by their real
  priorities.
\<close>

definition analyzeErrorPatterns :: "analyzer \<Rightarrow> int \<Rightarrow> errorPattern list" where
  "analyzeErrorPatterns fa now =
     sort_key (\<lambda>p. - patternPriority p)
       (map (\<lambda>(errorType, d).
               \<lparr>patternType = errorType, occurrences = errorCount d,
                frequency = jsDivide (errorCount d) (length (feedbackErrors fa)),
                patternLast = lastOccurrence d, affectedEndpoints = endpoints d,
                patternPriority = calculatePriority now d\<rparr>)
          (filter (\<lambda>(errorType, d). errorCount d \<ge> errorFrequency) (patternErrors fa)))"

definition errorRecommendationTable :: "(string \<times> string) list" where
  "errorRecommendationTable =
     [(''database'', ''Implement connection pooling and retry mechanisms''),
      (''timeout'', ''Review and adjust timeout settings, implement circuit breakers''),
      (''validation'', ''Enhance input validation and sanitization''),
      (''authentication'', ''Review and strengthen authentication mechanisms''),
      (''rate_limit'', ''Adjust rate limiting thresholds and implement caching'')]"

text \<open>
  \<open>recommendations[pattern.type] || fallback\<close> on an object literal: besides its
  five own keys the lookup finds the properties that the object inherits from
  \<open>Object.prototype\<close>, which are all truthy; for such a type the result is the
  inherited value, not a text.
\<close>

definition objectPrototypeKeys :: "string list" where
  "objectPrototypeKeys =
     [''constructor'', ''__defineGetter__'', ''__defineSetter__'', ''hasOwnProperty'',
      ''__lookupGetter__'', ''__lookupSetter__'', ''isPrototypeOf'',
      ''propertyIsEnumerable'', ''toString'', ''valueOf'', ''__proto__'',
      ''toLocaleString'']"

datatype advice = Advice string | Inherited string

definition getErrorRecommendation :: "errorPattern \<Rightarrow> advice" where
  "getErrorRecommendation p =
     (case map_of errorRecommendationTable (patternType p) of
        Some r \<Rightarrow> Advice r
      | None \<Rightarrow>
          if List.member objectPrototypeKeys (patternType p) then Inherited (patternType p)
          else Advice ''Investigate and implement appropriate error handling'')"

record tierEntry =
  entryKind :: string
  issue :: string
  advice :: advice
  tier :: string
  entryMetrics :: "(jsnumber \<times> nat) option"

record recommendations =
  immediate :: "tierEntry list"
  high :: "tierEntry list"
  medium :: "tierEntry list"
  low :: "tierEntry list"

definition emptyRecommendations :: recommendations where
  "emptyRecommendations = \<lparr>immediate = [], high = [], medium = [], low = []\<rparr>"

text \<open>The body of the \<open>forEach\<close> of \<open>generateErrorRecommendations\<close>.\<close>

definition recommendError :: "errorPattern \<Rightarrow> recommendations \<Rightarrow> recommendations" where
  "recommendError p rs =
     (if patternPriority p \<ge> 8 / 10 then
        rs\<lparr>immediate := immediate rs @
             [\<lparr>entryKind = ''error'', issue = ''Frequent error: '' @ patternType p,
               advice = getErrorRecommendation p, tier = ''immediate'',
               entryMetrics = Some (frequency p, occurrences p)\<rparr>]\<rparr>
      else if patternPriority p \<ge> 6 / 10 then
        rs\<lparr>high := high rs @
             [\<lparr>entryKind = ''error'', issue = ''Recurring error: '' @ patternType p,
               advice = getErrorRecommendation p, tier = ''high'',
               entryMetrics = None\<rparr>]\<rparr>
      else rs)"

definition recommendErrors :: "errorPattern list \<Rightarrow> recommendations \<Rightarrow> recommendations" where
  "recommendErrors ps rs = foldl (\<lambda>r p. recommendError p r) rs ps"

definition generateErrorRecommendations ::
  "analyzer \<Rightarrow> int \<Rightarrow> recommendations \<Rightarrow> recommendations" where
  "generateErrorRecommendations fa now rs = recommendErrors (analyzeErrorPatterns fa now) rs"

text \<open>
  The class calls thirteen methods that it does not define:
  \<open>calculateSentimentTrend\<close>, \<open>getTopComplaints\<close>, \<open>identifyEmergingIssues\<close>,
  \<open>analyzeUserComplaints\<close>, \<open>analyzeFeatureRequests\<close>,
  \<open>calculatePerformancePriority\<close>, \<open>generatePerformanceRecommendations\<close>,
  \<open>generateUserFeedbackRecommendations\<close>,
  \<open>generateFeatureRequestRecommendations\<close>, \<open>calculateErrorRate\<close>,
  \<open>calculateAverageResponseTime\<close>, \<open>calculateUserSatisfaction\<close> and
  \<open>calculateCriticalIssueRate\<close>. Such a call throws a \<open>TypeError\<close>. A method is
  modelled up to the first of these calls that it reaches.
\<close>

datatype error = TypeError string | AppError nat string



record recentTrends =
  dailyFeedbackCount :: nat












section \<open>FeedbackCollector (src/utils/feedbackCollector.js)\<close>

record metrics =
  mTotalFeedback :: nat
  mBugReports :: nat
  mFeatureRequests :: nat
  mPerformanceIssues :: nat
  mCriticalIssues :: nat

definition initialMetrics :: metrics where
  "initialMetrics =
     \<lparr>mTotalFeedback = 0, mBugReports = 0, mFeatureRequests = 0, mPerformanceIssues = 0,
      mCriticalIssues = 0\<rparr>"

definition resetMetrics :: "metrics \<Rightarrow> metrics" where
  "resetMetrics m = initialMetrics"

record statistics =
  statMetrics :: metrics
  errorRate :: jsnumber
  criticalRate :: jsnumber

definition getStatistics :: "metrics \<Rightarrow> statistics" where
  "getStatistics m =
     \<lparr>statMetrics = m,
      errorRate = jsDivide (mBugReports m) (mTotalFeedback m),
      criticalRate = jsDivide (mCriticalIssues m) (mTotalFeedback m)\<rparr>"

section \<open>Inputs of the examples\<close>

definition refusedAt :: "int \<Rightarrow> logEntry" where
  "refusedAt t =
     \<lparr>level = ''error'', message = ''connection refused'', path = None,
      timestamp = Some (ValidDate t),
      duration = None, entryType = None, query = None, heapUsed = None, cpuUsage = None\<rparr>"

definition sixRefused :: "logEntry list" where
  "sixRefused = map refusedAt [0, 30000, 60000, 90000, 120000, 150000]"

definition gatewayEntry :: logEntry where
  "gatewayEntry =
     \<lparr>level = ''error'', message = ''HTTP 503 timeout'', path = None, timestamp = None,
      duration = None, entryType = None, query = None, heapUsed = None, cpuUsage = None\<rparr>"

definition reviewText :: string where
  "reviewText = ''The food was delicious and the service was excellent''"

definition errorDataAt :: "nat \<Rightarrow> int \<Rightarrow> string option \<Rightarrow> errorData" where
  "errorDataAt c t s = \<lparr>errorCount = c, lastOccurrence = t, endpoints = [], severity = s\<rparr>"

definition emptyAnalyzer :: analyzer where
  "emptyAnalyzer =
     \<lparr>feedbackErrors = [], userFeedback = [], performanceData = [], patternErrors = []\<rparr>"

definition minorPattern :: errorPattern where
  "minorPattern =
     \<lparr>patternType = ''database'', occurrences = 5, frequency = Finite 1, patternLast = 0,
      affectedEndpoints = [], patternPriority = 1 / 2\<rparr>"



section \<open>Classification of error entries\<close>

lemma errors_trackPerformance: "errors (trackPerformance e r) = errors r"
  by (simp add: trackPerformance_def Let_def split: option.splits)

lemma errors_trackEndpoint: "errors (trackEndpoint e r) = errors r"
  by (simp add: trackEndpoint_def)

lemma errors_trackResources: "errors (trackResources e r) = errors r"
  by (simp add: trackResources_def Let_def split: option.splits)

text \<open>
  Claim C4. An entry of level \<open>error\<close> is counted under the first of timeout,
  memory, database, api and security, tried in this order, whose pattern matches
  the message, and under \<open>other\<close> when none matches; no other counter changes.
\<close>

theorem classify_first_match:
  assumes "level e = ''error''"
  shows "classify (message e) =
           (if regexTest timeoutPattern (message e) then Timeout
            else if regexTest memoryPattern (message e) then Memory
            else if regexTest databasePattern (message e) then Database
            else if regexTest apiPattern (message e) then Api
            else if regexTest securityPattern (message e) then Security
            else Other) \<and>
         errors (analyzeLogEntry e r) =
           (errors r)(classify (message e) := errors r (classify (message e)) + 1)"
proof -
  have "errors (trackError e r) =
          (errors r)(classify (message e) := errors r (classify (message e)) + 1)"
    using assms by (simp add: trackError_def)
  then have "errors (analyzeLogEntry e r) =
          (errors r)(classify (message e) := errors r (classify (message e)) + 1)"
    by (simp add: analyzeLogEntry_def errors_trackPerformance errors_trackEndpoint
        errors_trackResources)
  then show ?thesis
    by (simp add: classify_def errorPatterns_def)
qed

text \<open>
  The message \<open>HTTP 503 timeout\<close> matches the patterns of timeout and of api; it
  is counted as a timeout.
\<close>

theorem classify_first_match_witness:
  "classify (message gatewayEntry) = Timeout \<and>
   regexTest apiPattern (message gatewayEntry) \<and>
   errors (analyzeLogEntry gatewayEntry emptyResults) Timeout = 1 \<and>
   errors (analyzeLogEntry gatewayEntry emptyResults) Api = 0"
proof -
  have l: "level gatewayEntry = ''error''"
    by (simp add: gatewayEntry_def)
  have t: "regexTest timeoutPattern (message gatewayEntry)"
    by code_simp
  have a: "regexTest apiPattern (message gatewayEntry)"
    by code_simp
  show ?thesis
    using classify_first_match [OF l, of emptyResults] t a
    by (simp add: emptyResults_def)
qed

section \<open>Error clusters\<close>

text \<open>On valid dates the sort is the sort of their milliseconds.\<close>

lemma insertTime_valid:
  "insertTime (ValidDate x) (map ValidDate ys) = map ValidDate (insort x ys)"
  by (induction ys) (simp_all add: compareTimes_def)

lemma sortTimes_valid: "sortTimes (map ValidDate ts) = map ValidDate (sort ts)"
proof (induction ts)
  case Nil
  then show ?case by (simp add: sortTimes_def)
next
  case (Cons t ts)
  then show ?case
    by (simp add: sortTimes_def sort_key_def insertTime_valid)
qed






section \<open>Six refused connections\<close>

lemma classify_refused: "classify ''connection refused'' = Database"
  by code_simp

lemma analyzeLogEntry_refused:
  "analyzeLogEntry (refusedAt t) r =
     r\<lparr>errors := (errors r)(Database := errors r Database + 1),
       commonErrors := increment ''unknown: connection refused'' (commonErrors r),
       errorTimes := errorTimes r @ [ValidDate t]\<rparr>"
  by (simp add: analyzeLogEntry_def trackError_def trackPerformance_def trackEndpoint_def
      trackResources_def refusedAt_def classify_refused errorKey_def truthy_def)

text \<open>
  The loop pushes a cluster only on meeting a later time that is more than five
  minutes away: times that follow each other within five minutes add nothing to
  \<open>clusters\<close>, however many they are.
\<close>

lemma clusterLoop_one_run:
  "successively (\<lambda>a b. b - a \<le> 300000) (cur @ ts) \<Longrightarrow>
   clusterLoop (map ValidDate ts) cls (map ValidDate cur) = cls"
proof (induction ts arbitrary: cur)
  case Nil
  then show ?case by simp
next
  case (Cons t ts)
  show ?case
  proof (cases "cur = []")
    case True
    with Cons.prems have "successively (\<lambda>a b. b - a \<le> 300000) ([t] @ ts)"
      by simp
    from Cons.IH [OF this] True show ?thesis by simp
  next
    case False
    with Cons.prems have near: "t - last cur \<le> 300000"
      by (simp add: successively_append_iff)
    from Cons.prems have "successively (\<lambda>a b. b - a \<le> 300000) ((cur @ [t]) @ ts)"
      by simp
    from Cons.IH [OF this] False near show ?thesis
      by (simp add: withinFiveMinutes_def last_map)
  qed
qed

lemma analyzePatterns_one_run:
  "errorTimes r = map ValidDate ts \<Longrightarrow> successively (\<lambda>a b. b - a \<le> 300000) (sort ts) \<Longrightarrow>
   errorClusters (analyzePatterns r) = []"
  using clusterLoop_one_run [of "[]" "sort ts" "[]"]
  by (simp add: analyzePatterns_def sortTimes_valid)

text \<open>
  Claim C1, at its example: six \<open>connection refused\<close> errors, 30 seconds apart.
  All six are counted under database and a database recommendation is made, but
  no cluster is returned: the loop ends while the six times are still in
  \<open>currentCluster\<close>.
\<close>

theorem sixRefused_no_cluster:
  "errors (fst (analyzeLogs sixRefused)) Database = 6 \<and>
   errorTimes (fst (analyzeLogs sixRefused)) =
     map ValidDate [0, 30000, 60000, 90000, 120000, 150000] \<and>
   errorClusters (fst (analyzeLogs sixRefused)) = [] \<and>
   map category (snd (analyzeLogs sixRefused)) = [''Database'']"
proof -
  let ?r = "foldl (\<lambda>r e. analyzeLogEntry e r) emptyResults sixRefused"
  have t: "errorTimes ?r = map ValidDate [0, 30000, 60000, 90000, 120000, 150000]"
    by (simp add: sixRefused_def analyzeLogEntry_refused emptyResults_def)
  have d: "errors ?r Database = 6" and p: "slowRequests ?r = []" "highMemory ?r = []"
    and o: "errors ?r Api = 0" "errors ?r Security = 0"
    by (simp_all add: sixRefused_def analyzeLogEntry_refused emptyResults_def)
  have s: "sort [0, 30000, 60000, 90000, 120000, 150000 :: int] =
           [0, 30000, 60000, 90000, 120000, 150000]"
    by simp
  have c: "errorClusters (analyzePatterns ?r) = []"
    by (rule analyzePatterns_one_run [OF t]) (simp add: s)
  have e: "errorTimes (analyzePatterns ?r) =
             map ValidDate [0, 30000, 60000, 90000, 120000, 150000]"
    using t by (simp add: analyzePatterns_def sortTimes_valid s del: list.map)
  have k: "errors (analyzePatterns ?r) = errors ?r"
    "slowRequests (analyzePatterns ?r) = slowRequests ?r"
    "highMemory (analyzePatterns ?r) = highMemory ?r"
    by (simp_all add: analyzePatterns_def)
  show ?thesis
    unfolding analyzeLogs_def analyzeEntries_def fst_conv snd_conv
    using c e d p o k by (simp add: generateRecommendations_def)
qed

section \<open>Rounding to a double\<close>

lemma findExponent_found:
  "2 powi e0 \<le> x \<Longrightarrow> x < 2 powi (e0 + 1) \<Longrightarrow> e0 \<le> e \<Longrightarrow> e - e0 \<le> int k \<Longrightarrow>
   findExponent k e x = e0"
proof (induction k arbitrary: e)
  case 0
  then show ?case by simp
next
  case (Suc k)
  show ?case
  proof (cases "2 powi e \<le> x")
    case True
    have "e \<le> e0"
    proof (rule ccontr)
      assume "\<not> e \<le> e0"
      then have "e0 + 1 \<le> e" by simp
      then have "(2::rat) powi (e0 + 1) \<le> 2 powi e"
        by (intro power_int_increasing) simp_all
      with True Suc.prems(2) show False by simp
    qed
    with Suc.prems(3) True show ?thesis by simp
  next
    case False
    with Suc.prems(1) have "e \<noteq> e0" by auto
    with Suc.prems have "e0 \<le> e - 1" "e - 1 - e0 \<le> int k" by simp_all
    from Suc.IH [OF Suc.prems(1) Suc.prems(2) this] False show ?thesis by simp
  qed
qed

lemma findExponent_none: "x \<le> 0 \<Longrightarrow> findExponent k e x = e - int k"
proof (induction k arbitrary: e)
  case 0
  then show ?case by simp
next
  case (Suc k)
  have "(0::rat) < 2 powi e" by simp
  with Suc.prems have "\<not> 2 powi e \<le> x" by linarith
  with Suc.IH [OF Suc.prems, of "e - 1"] show ?case by simp
qed

lemma findExponent_bounds:
  "x < 2 powi (e + 1) \<Longrightarrow> 2 powi (e - int k) \<le> x \<Longrightarrow>
   2 powi (findExponent k e x) \<le> x \<and> x < 2 powi (findExponent k e x + 1)"
proof (induction k arbitrary: e)
  case 0
  then show ?case by simp
next
  case (Suc k)
  show ?case
  proof (cases "2 powi e \<le> x")
    case True
    with Suc.prems show ?thesis by simp
  next
    case False
    then have "x < 2 powi (e - 1 + 1)" by simp
    moreover have "2 powi (e - 1 - int k) \<le> x"
      using Suc.prems(2) by (simp add: algebra_simps)
    ultimately show ?thesis
      using Suc.IH [of "e - 1"] False by simp
  qed
qed

lemma exponentOf_eq:
  assumes "2 powi e \<le> \<bar>x\<bar>" "\<bar>x\<bar> < 2 powi (e + 1)" "- 1022 \<le> e" "e \<le> 1023"
  shows "exponentOf x = e"
  unfolding exponentOf_def
  by (rule findExponent_found [OF assms(1) assms(2)]) (use assms in simp_all)

lemma roundEven_near:
  assumes "\<bar>x - of_int n\<bar> < 1 / 2"
  shows "roundEven x = n"
proof -
  from assms have lo: "of_int n - 1 / 2 < x" and hi: "x < of_int n + 1 / 2"
    unfolding abs_less_iff by linarith+
  show ?thesis
  proof (cases "of_int n \<le> x")
    case True
    have "\<lfloor>x\<rfloor> = n"
    proof (rule floor_unique)
      show "of_int n \<le> x" by (rule True)
      show "x < of_int n + 1" using hi by linarith
    qed
    with hi show ?thesis
      by (simp add: roundEven_def Let_def)
  next
    case False
    have f: "\<lfloor>x\<rfloor> = n - 1"
    proof (rule floor_unique)
      have "of_int n - 1 \<le> x" using lo by linarith
      then show "of_int (n - 1) \<le> x" by simp
      show "x < of_int (n - 1) + 1" using False by simp
    qed
    have "1 / 2 < x - (of_int n - 1)"
      using lo by linarith
    with f show ?thesis
      by (simp add: roundEven_def Let_def)
  qed
qed


lemma roundEven_error: "\<bar>of_int (roundEven x) - x\<bar> \<le> 1 / 2"
proof -
  have "of_int \<lfloor>x\<rfloor> \<le> x" "x < of_int \<lfloor>x\<rfloor> + 1"
    by linarith+
  then show ?thesis
    by (auto simp: roundEven_def Let_def)
qed

lemma roundToDouble_eqI:
  assumes "2 powi e \<le> \<bar>x\<bar>" "\<bar>x\<bar> < 2 powi (e + 1)" "- 1022 \<le> e" "e \<le> 1023"
    and "\<bar>x / 2 powi (e - 52) - of_int n\<bar> < 1 / 2"
  shows "roundToDouble x = of_int n * 2 powi (e - 52)"
  using assms(5)
  by (simp add: roundToDouble_def exponentOf_eq [OF assms(1-4)] roundEven_near Let_def)



text \<open>
  In the range of the normal doubles the rounding changes a number by at most
  the fraction \<open>2 powi (-53)\<close> of its magnitude.
\<close>

lemma roundToDouble_error:
  assumes "2 powi (- 1022) \<le> \<bar>x\<bar>" and "\<bar>x\<bar> < 2 powi 1024"
  shows "\<bar>roundToDouble x - x\<bar> \<le> \<bar>x\<bar> * 2 powi (- 53)"
proof -
  define e where "e = exponentOf x"
  define u :: rat where "u = 2 powi (e - 52)"
  have b: "2 powi e \<le> \<bar>x\<bar> \<and> \<bar>x\<bar> < 2 powi (e + 1)"
    unfolding e_def exponentOf_def
    using findExponent_bounds [of "\<bar>x\<bar>" 1023 2045] assms by simp
  have u: "0 < u" by (simp add: u_def)
  have "roundToDouble x - x = (of_int (roundEven (x / u)) - x / u) * u"
    using u by (simp add: roundToDouble_def e_def u_def Let_def algebra_simps)
  then have "\<bar>roundToDouble x - x\<bar> = \<bar>of_int (roundEven (x / u)) - x / u\<bar> * u"
    using u by (simp add: abs_mult)
  also have "\<dots> \<le> 1 / 2 * u"
    using roundEven_error [of "x / u"] u by (intro mult_right_mono) simp_all
  also have "1 / 2 * u = 2 powi e * 2 powi (- 53)"
    by (simp add: u_def power_int_add [symmetric] power_int_minus_divide power_int_diff)
  also have "\<dots> \<le> \<bar>x\<bar> * 2 powi (- 53)"
    using b by (intro mult_right_mono) simp_all
  finally show ?thesis .
qed

text \<open>The doubles of the examples.\<close>

lemma number_0_8: "number (4 / 5) = 3602879701896397 / 4503599627370496"
  unfolding number_def
  using roundToDouble_eqI [of "- 1" "4 / 5" "7205759403792794"]
  by simp

lemma number_0_9: "number (9 / 10) = 8106479329266893 / 9007199254740992"
  unfolding number_def
  using roundToDouble_eqI [of "- 1" "9 / 10" "8106479329266893"]
  by simp


lemma number_1: "number 1 = 1"
  unfolding number_def
  using roundToDouble_eqI [of "0" "1" "4503599627370496"]
  by simp







lemma sum_0_08: "jsAdd 0 (3602879701896397 / 4503599627370496) = 3602879701896397 / 4503599627370496"
  unfolding jsAdd_def
  using roundToDouble_eqI [of "- 1" "0 + (3602879701896397 / 4503599627370496)" "7205759403792794"]
  by simp

lemma sum_08_1: "jsAdd (3602879701896397 / 4503599627370496) 1 = 8106479329266893 / 4503599627370496"
  unfolding jsAdd_def
  using roundToDouble_eqI [of "0" "(3602879701896397 / 4503599627370496) + 1" "8106479329266893"]
  by simp

lemma quotient_18_2: "jsDiv (8106479329266893 / 4503599627370496) 2 = 8106479329266893 / 9007199254740992"
  unfolding jsDiv_def
  using roundToDouble_eqI [of "- 1" "(8106479329266893 / 4503599627370496) / 2" "8106479329266893"]
  by simp

lemma quotient_2_3: "jsDiv 2 3 = 6004799503160661 / 9007199254740992"
  unfolding jsDiv_def
  using roundToDouble_eqI [of "- 1" "2 / 3" "6004799503160661"]
  by simp

lemma sum_0_09: "jsAdd 0 (8106479329266893 / 9007199254740992) = 8106479329266893 / 9007199254740992"
  unfolding jsAdd_def
  using roundToDouble_eqI [of "- 1" "0 + (8106479329266893 / 9007199254740992)" "8106479329266893"]
  by simp

lemma sum_09_09: "jsAdd (8106479329266893 / 9007199254740992) (8106479329266893 / 9007199254740992) = 8106479329266893 / 4503599627370496"
  unfolding jsAdd_def
  using roundToDouble_eqI [of "0" "(8106479329266893 / 9007199254740992) + (8106479329266893 / 9007199254740992)" "8106479329266893"]
  by simp







section \<open>Rounding to two decimals\<close>





section \<open>Sentiment scores\<close>

lemma scoreWords_filter:
  "scoreWords ws tot matched =
     (foldl jsAdd tot (map (\<lambda>w. number (keywordWeight w)) (filter isKeyword ws)),
      matched @ map (\<lambda>w. (w, number (keywordWeight w))) (filter isKeyword ws))"
proof (induction ws arbitrary: tot matched)
  case Nil
  then show ?case by simp
next
  case (Cons w ws)
  show ?case
  proof (cases "map_of POSITIVE_KEYWORDS w")
    case (Some v)
    then have "isKeyword w" and "keywordWeight w = v"
      by (simp_all add: isKeyword_def keywordWeight_def map_add_def)
    with Some Cons.IH show ?thesis by simp
  next
    case None
    note pos = None
    show ?thesis
    proof (cases "map_of NEGATIVE_KEYWORDS w")
      case (Some v)
      with pos have "isKeyword w" and "keywordWeight w = v"
        by (simp_all add: isKeyword_def keywordWeight_def map_add_def)
      with Some pos Cons.IH show ?thesis by simp
    next
      case None
      with pos have "\<not> isKeyword w"
        by (simp add: isKeyword_def map_add_def)
      with None pos Cons.IH show ?thesis by simp
    qed
  qed
qed

lemma analyzeSentiment_eq:
  "analyzeSentiment txt =
     \<lparr>score = toFixed2 (meanWeight txt),
      matchedWords = map (\<lambda>w. (w, number (keywordWeight w))) (matchedTokens txt),
      confidence = min (jsDiv (of_nat (length (matchedTokens txt))) 3) 1\<rparr>"
proof (cases "matchedTokens txt")
  case Nil
  then show ?thesis
    by (simp add: analyzeSentiment_def matchedTokens_def meanWeight_def scoreWords_filter
        Let_def)
next
  case (Cons w ws)
  then have "max (length (matchedTokens txt)) 1 = length (matchedTokens txt)"
    by simp
  with Cons show ?thesis
    by (simp add: analyzeSentiment_def matchedTokens_def meanWeight_def jsSum_def
        scoreWords_filter Let_def)
qed




lemma keyword_weights:
  "keywordWeight ''excellent'' = 1" "keywordWeight ''great'' = 4 / 5"
  "keywordWeight ''good'' = 1 / 2" "keywordWeight ''terrible'' = - 1"
  "keywordWeight ''delicious'' = 4 / 5"
  by code_simp+




section \<open>Aspects of the example review\<close>

lemma review_sentences:
  "splitSentences reviewText = [''the food was delicious and the service was excellent'']"
  by code_simp

lemma review_categorized:
  "categorizeSentence ''the food was delicious and the service was excellent'' initialAspects =
     [(''service'', \<lparr>sentences = [''the food was delicious and the service was excellent''],
                     matchedKeywords = [''service''], sentimentScore = 0, mentionCount = 1\<rparr>),
      (''food'', \<lparr>sentences = [''the food was delicious and the service was excellent''],
                  matchedKeywords = [''food'', ''delicious''], sentimentScore = 0,
                  mentionCount = 1\<rparr>),
      (''pricing'', \<lparr>sentences = [], matchedKeywords = [], sentimentScore = 0,
                     mentionCount = 0\<rparr>),
      (''ambiance'', \<lparr>sentences = [], matchedKeywords = [], sentimentScore = 0,
                      mentionCount = 0\<rparr>),
      (''location'', \<lparr>sentences = [], matchedKeywords = [], sentimentScore = 0,
                      mentionCount = 0\<rparr>)]"
  by code_simp

lemma review_tokens:
  "matchedTokens ''the food was delicious and the service was excellent'' =
     [''delicious'', ''excellent'']"
  by code_simp

lemma review_mean:
  "meanWeight ''the food was delicious and the service was excellent'' =
     8106479329266893 / 9007199254740992"
  by (simp add: meanWeight_def jsSum_def review_tokens keyword_weights number_1 number_0_8
      sum_0_08 sum_08_1 quotient_18_2)

lemma toFixed2_review: "toFixed2 (8106479329266893 / 9007199254740992) = 9 / 10"
proof -
  have "\<lfloor>203787883138514949 / 2251799813685248 :: rat\<rfloor> = 90"
    by (rule floor_unique) simp_all
  then show ?thesis by (simp add: toFixed2_def)
qed

lemma review_sentiment:
  "analyzeSentiment ''the food was delicious and the service was excellent'' =
     \<lparr>score = 9 / 10,
      matchedWords = [(''delicious'', 3602879701896397 / 4503599627370496), (''excellent'', 1)],
      confidence = 6004799503160661 / 9007199254740992\<rparr>"
  by (simp add: analyzeSentiment_eq review_mean toFixed2_review review_tokens keyword_weights
      number_1 number_0_8 quotient_2_3)

lemma review_aspects:
  "fst (analyzeAspects reviewText) =
     [(''service'', \<lparr>aspectScore = 9 / 10,
                     aspectConfidence = 6004799503160661 / 9007199254740992, mentions = 1,
                     aspectKeywords = [''service''],
                     relevantText = [''the food was delicious and the service was excellent'']\<rparr>),
      (''food'', \<lparr>aspectScore = 9 / 10,
                  aspectConfidence = 6004799503160661 / 9007199254740992, mentions = 1,
                  aspectKeywords = [''food'', ''delicious''],
                  relevantText = [''the food was delicious and the service was excellent'']\<rparr>)]"
  by (simp add: analyzeAspects_def aspectResults_def review_sentences review_categorized
      aspectSentiment_def review_sentiment Let_def)

lemma review_overall:
  "map_option overallScore (snd (analyzeAspects reviewText)) = Some (9 / 10)"
proof -
  have "snd (analyzeAspects reviewText) = generateAspectSummary (fst (analyzeAspects reviewText))"
    by (simp add: analyzeAspects_def Let_def)
  then show ?thesis
    by (simp add: review_aspects generateAspectSummary_def number_0_9 sum_0_09 sum_09_09
        quotient_18_2 toFixed2_review)
qed

text \<open>
  Claim C3 as stated fails: the one sentence of the review mentions both food and
  service, so each of the two aspects is scored on the whole sentence, with both
  \<open>delicious\<close> and \<open>excellent\<close>; the score of food is not 0.80.
\<close>

theorem review_food_not_080:
  "\<not> (aspectScoreOf reviewText ''food'' = Some (80 / 100) \<and>
      aspectScoreOf reviewText ''service'' = Some (100 / 100) \<and>
      map_option overallScore (snd (analyzeAspects reviewText)) = Some (90 / 100))"
  by (simp add: aspectScoreOf_def review_aspects)

text \<open>
  Claim C3, amended. For the review \<open>The food was delicious and the service was
  excellent\<close> the score of food is 0.90, the score of service is 0.90 and the
  overall score is 0.90.
\<close>

theorem review_scores:
  "aspectScoreOf reviewText ''food'' = Some (90 / 100) \<and>
   aspectScoreOf reviewText ''service'' = Some (90 / 100) \<and>
   map_option overallScore (snd (analyzeAspects reviewText)) = Some (90 / 100)"
  using review_overall by (simp add: aspectScoreOf_def review_aspects)

section \<open>Priority of an error pattern\<close>

lemma recencyScore_positive: "0 < recencyScore now d"
  by (simp add: recencyScore_def)

lemma recencyScore_le_one: "lastOccurrence d \<le> now \<Longrightarrow> recencyScore now d \<le> 1"
  by (simp add: recencyScore_def dayInMs_def)

lemma frequencyScore_bounds: "0 \<le> frequencyScore d \<and> frequencyScore d \<le> 1"
  by (simp add: frequencyScore_def errorFrequency_def)

lemma severityScore_bounds: "0 \<le> severityScore d \<and> severityScore d \<le> 1"
  by (simp add: severityScore_def)

text \<open>
  Claim C5 as stated fails: nothing clamps the priority, and an error whose last
  occurrence is one day after the clock reading, with 5 occurrences and severity
  critical, has a priority above 1 (\<open>0.4 + 0.4 + 0.2 e\<close>).
\<close>

theorem priority_above_one:
  "\<not> (0 \<le> calculatePriority 0 (errorDataAt 5 86400000 (Some ''critical'')) \<and>
      calculatePriority 0 (errorDataAt 5 86400000 (Some ''critical'')) \<le> 1)"
proof -
  have e: "1 < exp (1 :: real)"
    by simp
  have "calculatePriority 0 (errorDataAt 5 86400000 (Some ''critical'')) = 8 / 10 + exp 1 * (2 / 10)"
    by (simp add: calculatePriority_def errorDataAt_def frequencyScore_def severityScore_def
        recencyScore_def errorFrequency_def dayInMs_def)
  with e show ?thesis
    by linarith
qed

text \<open>
  Claim C5, amended. For every count, last occurrence, severity and clock reading
  the priority is \<open>0.4 min(count / 5, 1) + 0.4 (1 if severity is critical, else
  0.5) + 0.2 exp(- (now - lastOccurrence) / 86400000)\<close>; it lies in \<open>[0, 1]\<close>
  whenever the last occurrence is not later than the clock reading.
\<close>

theorem priority_formula_range:
  "calculatePriority now d =
     4 / 10 * min (real (errorCount d) / 5) 1 +
     4 / 10 * (if severity d = Some ''critical'' then 1 else 5 / 10) +
     2 / 10 * exp (- (real_of_int (now - lastOccurrence d)) / 86400000) \<and>
   (lastOccurrence d \<le> now \<longrightarrow> 0 \<le> calculatePriority now d \<and> calculatePriority now d \<le> 1)"
proof -
  have f: "calculatePriority now d =
           4 / 10 * min (real (errorCount d) / 5) 1 +
           4 / 10 * (if severity d = Some ''critical'' then 1 else 5 / 10) +
           2 / 10 * exp (- (real_of_int (now - lastOccurrence d)) / 86400000)"
    by (simp add: calculatePriority_def frequencyScore_def severityScore_def recencyScore_def
        errorFrequency_def dayInMs_def)
  have lo: "0 \<le> calculatePriority now d"
    using frequencyScore_bounds [of d] severityScore_bounds [of d]
      recencyScore_positive [of now d]
    by (simp add: calculatePriority_def)
  have hi: "calculatePriority now d \<le> 1" if "lastOccurrence d \<le> now"
    using frequencyScore_bounds [of d] severityScore_bounds [of d]
      recencyScore_le_one [OF that]
    by (simp add: calculatePriority_def)
  show ?thesis
    using f lo hi by blast
qed

text \<open>
  With 5 occurrences of severity critical, the last of them at the clock reading,
  the priority is 1; with the last of them a day later the formula gives
  \<open>0.8 + 0.2 e\<close>.
\<close>

theorem priority_formula_range_witness:
  "lastOccurrence (errorDataAt 5 0 (Some ''critical'')) \<le> 0 \<and>
   calculatePriority 0 (errorDataAt 5 0 (Some ''critical'')) = 1 \<and>
   calculatePriority 0 (errorDataAt 5 86400000 (Some ''critical'')) = 8 / 10 + 2 / 10 * exp 1"
  using priority_formula_range [of 0 "errorDataAt 5 0 (Some ''critical'')"]
    priority_formula_range [of 0 "errorDataAt 5 86400000 (Some ''critical'')"]
  by (simp add: errorDataAt_def)

text \<open>
  Claim C8. With severity and last occurrence fixed, the priority does not
  decrease when the count grows.
\<close>

theorem priority_mono_count:
  assumes "c1 \<le> c2"
  shows "calculatePriority now (d\<lparr>errorCount := c1\<rparr>) \<le>
         calculatePriority now (d\<lparr>errorCount := c2\<rparr>)"
proof -
  have "real c1 / 5 \<le> real c2 / 5"
    using assms by simp
  then have "min (real c1 / 5) 1 \<le> min (real c2 / 5) 1"
    by (simp add: min_def)
  then show ?thesis
    by (simp add: calculatePriority_def frequencyScore_def severityScore_def recencyScore_def
        errorFrequency_def)
qed

theorem priority_mono_count_witness:
  "calculatePriority 0 (errorDataAt 1 0 None) = 48 / 100 \<and>
   calculatePriority 0 (errorDataAt 2 0 None) = 56 / 100 \<and>
   calculatePriority 0 (errorDataAt 1 0 None) \<le> calculatePriority 0 (errorDataAt 2 0 None)"
  using priority_mono_count [of 1 2 0 "errorDataAt 0 0 None"]
  by (simp add: errorDataAt_def calculatePriority_def frequencyScore_def severityScore_def
        recencyScore_def errorFrequency_def)

section \<open>Recommendations from error patterns\<close>

lemma recommendError_tiers:
  "medium (recommendError p rs) = medium rs \<and> low (recommendError p rs) = low rs"
  by (simp add: recommendError_def)

lemma recommendErrors_tiers:
  "medium (recommendErrors ps rs) = medium rs \<and> low (recommendErrors ps rs) = low rs"
  unfolding recommendErrors_def
  by (induction ps arbitrary: rs) (simp_all add: recommendError_tiers)

lemma recommendErrors_minor:
  "list_all (\<lambda>p. patternPriority p < 6 / 10) ps \<Longrightarrow> recommendErrors ps rs = rs"
  unfolding recommendErrors_def
  by (induction ps arbitrary: rs) (simp_all add: recommendError_def)

text \<open>
  Claim C10. A pattern whose priority is below 0.6 adds no recommendation to any
  tier, and so does a list of such patterns; for every input the tiers medium and
  low come out of \<open>generateErrorRecommendations\<close> as they went in.
\<close>

theorem minor_patterns_not_recommended:
  "(patternPriority p < 6 / 10 \<longrightarrow> recommendError p rs = rs) \<and>
   (list_all (\<lambda>p. patternPriority p < 6 / 10) ps \<longrightarrow> recommendErrors ps rs = rs) \<and>
   medium (recommendErrors ps rs) = medium rs \<and>
   low (recommendErrors ps rs) = low rs \<and>
   medium (generateErrorRecommendations fa now rs) = medium rs \<and>
   low (generateErrorRecommendations fa now rs) = low rs"
  by (simp add: recommendErrors_minor recommendErrors_tiers generateErrorRecommendations_def
      recommendError_def)

theorem minor_patterns_not_recommended_witness:
  "patternPriority minorPattern < 6 / 10 \<and>
   recommendError minorPattern emptyRecommendations = emptyRecommendations \<and>
   recommendErrors [minorPattern, minorPattern] emptyRecommendations = emptyRecommendations"
  using minor_patterns_not_recommended [of minorPattern emptyRecommendations
      "[minorPattern, minorPattern]"]
  by (simp add: minorPattern_def)

section \<open>Runs of the feedback analysis\<close>


section \<open>Rates without feedback\<close>

text \<open>
  Claim C6, at its example: with no feedback collected (a new collector, or one
  after \<open>resetMetrics\<close>), \<open>getStatistics\<close> divides by the total 0, and both
  rates are \<open>NaN\<close>, not 0. On empty data \<open>generateErrorRecommendations\<close> adds
  nothing.
\<close>

theorem statistics_without_feedback:
  "errorRate (getStatistics initialMetrics) = NaN \<and>
   criticalRate (getStatistics initialMetrics) = NaN \<and>
   errorRate (getStatistics (resetMetrics m)) = NaN \<and>
   criticalRate (getStatistics (resetMetrics m)) = NaN \<and>
   generateErrorRecommendations emptyAnalyzer now emptyRecommendations = emptyRecommendations"
  by (simp add: getStatistics_def initialMetrics_def resetMetrics_def jsDivide_def
      generateErrorRecommendations_def analyzeErrorPatterns_def emptyAnalyzer_def
      recommendErrors_def)

end
